theory Spec2Isabelle
  imports Complex_Main "HOL-Library.Sublist"
begin

section \<open>Python values\<close>

text \<open>
  A Python \<open>str\<close> is a sequence of Unicode code points, and the program's texts contain
  Sinhala letters, dashes and a check mark, so a string is a list of code points.
  \<open>str\<close> turns an ASCII literal into such a list.
\<close>

type_synonym pystr = "nat list"

definition str :: "string \<Rightarrow> pystr" where
  "str s = map of_char s"

text \<open>
  What \<open>json.loads\<close> produces: \<open>None\<close>, \<open>bool\<close>, \<open>int\<close>, \<open>float\<close>, \<open>str\<close>,
  \<open>list\<close> and \<open>dict\<close>. A dict is the list of its items (the keys of a parsed object
  are strings); lookups go through \<open>map_of\<close>. A float is read as a real number: the
  program only tests a float for zero and passes it on, and \<open>NaN\<close> and the infinities
  behave there like any non-zero float.
\<close>

datatype json =
    JNull
  | JBool bool
  | JInt int
  | JFloat real
  | JStr pystr
  | JList "json list"
  | JDict "(pystr \<times> json) list"

text \<open>
  Exceptions. \<open>HTTPStatusError\<close> carries the status code and the text of its response,
  the two things the handler reads from it; every other exception is an \<open>Exception\<close>
  of some class with the text \<open>str(e)\<close> gives (message texts as CPython 3.11 prints them).
  What is not an \<open>Exception\<close> (the cancellation of the task) is left out.
\<close>

datatype exc_class = KeyError | IndexError | TypeError | AttributeError | OtherException

datatype pyexc = HTTPStatusError int pystr | PyExc exc_class pystr

fun type_name :: "json \<Rightarrow> pystr" where
  "type_name JNull = str ''NoneType''"
| "type_name (JBool b) = str ''bool''"
| "type_name (JInt i) = str ''int''"
| "type_name (JFloat r) = str ''float''"
| "type_name (JStr s) = str ''str''"
| "type_name (JList xs) = str ''list''"
| "type_name (JDict d) = str ''dict''"

definition quoted :: "pystr \<Rightarrow> pystr" where
  "quoted s = [0x27] @ s @ [0x27]"

text \<open>Truth value testing, as \<open>not\<close>, \<open>or\<close> and \<open>if\<close> apply it.\<close>

fun truthy :: "json \<Rightarrow> bool" where
  "truthy JNull = False"
| "truthy (JBool b) = b"
| "truthy (JInt i) = (i \<noteq> 0)"
| "truthy (JFloat r) = (r \<noteq> 0)"
| "truthy (JStr s) = (s \<noteq> [])"
| "truthy (JList xs) = (xs \<noteq> [])"
| "truthy (JDict d) = (d \<noteq> [])"

text \<open>\<open>str.isspace\<close> on one code point, and \<open>str.strip()\<close> without argument.\<close>

definition isspace :: "nat \<Rightarrow> bool" where
  "isspace c \<longleftrightarrow>
     (0x09 \<le> c \<and> c \<le> 0x0D) \<or> (0x1C \<le> c \<and> c \<le> 0x20) \<or> c = 0x85 \<or> c = 0xA0 \<or>
     c = 0x1680 \<or> (0x2000 \<le> c \<and> c \<le> 0x200A) \<or> c = 0x2028 \<or> c = 0x2029 \<or>
     c = 0x202F \<or> c = 0x205F \<or> c = 0x3000"

definition strip :: "pystr \<Rightarrow> pystr" where
  "strip s = rev (dropWhile isspace (rev (dropWhile isspace s)))"

text \<open>\<open>str(n)\<close> for an int, as the f-string formats the status code.\<close>

fun digits :: "nat \<Rightarrow> pystr" where
  "digits n = (if n < 10 then [0x30 + n] else digits (n div 10) @ [0x30 + n mod 10])"

declare digits.simps [simp del]

definition str_int :: "int \<Rightarrow> pystr" where
  "str_int i = (if i < 0 then [0x2D] @ digits (nat (- i)) else digits (nat i))"

text \<open>An exception raised by one step ends the whole expression.\<close>

definition and_then :: "pyexc + 'a \<Rightarrow> ('a \<Rightarrow> pyexc + 'b) \<Rightarrow> pyexc + 'b" where
  "and_then r f = (case r of Inl e \<Rightarrow> Inl e | Inr x \<Rightarrow> f x)"

text \<open>\<open>v.get(k, dflt)\<close>: only a dict has the method.\<close>

fun py_get :: "json \<Rightarrow> pystr \<Rightarrow> json \<Rightarrow> pyexc + json" where
  "py_get (JDict d) k dflt = Inr (case map_of d k of None \<Rightarrow> dflt | Some v \<Rightarrow> v)"
| "py_get v k dflt =
     Inl (PyExc AttributeError (quoted (type_name v) @ str '' object has no attribute '' @ quoted (str ''get'')))"

text \<open>
  \<open>v[0]\<close>: the first element of a list, the first character of a str; a parsed dict has
  no key \<open>0\<close>; the other values are not subscriptable.
\<close>

fun py_index0 :: "json \<Rightarrow> pyexc + json" where
  "py_index0 (JList []) = Inl (PyExc IndexError (str ''list index out of range''))"
| "py_index0 (JList (x # xs)) = Inr x"
| "py_index0 (JStr []) = Inl (PyExc IndexError (str ''string index out of range''))"
| "py_index0 (JStr (c # cs)) = Inr (JStr [c])"
| "py_index0 (JDict d) = Inl (PyExc KeyError (str ''0''))"
| "py_index0 v = Inl (PyExc TypeError (quoted (type_name v) @ str '' object is not subscriptable''))"

text \<open>\<open>v[k]\<close> with a str key \<open>k\<close> (\<open>str(KeyError(k))\<close> is the key in quotes, for the plain keys used here).\<close>

fun py_getitem :: "json \<Rightarrow> pystr \<Rightarrow> pyexc + json" where
  "py_getitem (JDict d) k =
     (case map_of d k of None \<Rightarrow> Inl (PyExc KeyError (quoted k)) | Some v \<Rightarrow> Inr v)"
| "py_getitem (JList xs) k =
     Inl (PyExc TypeError (str ''list indices must be integers or slices, not str''))"
| "py_getitem (JStr s) k =
     Inl (PyExc TypeError (str ''string indices must be integers, not '' @ quoted (str ''str'')))"
| "py_getitem v k = Inl (PyExc TypeError (quoted (type_name v) @ str '' object is not subscriptable''))"

text \<open>
  \<open>k in v\<close> with a str \<open>k\<close>: a key of a dict, an element of a list, a substring of a str;
  \<open>None\<close>, a bool and a number are not containers.
\<close>

fun py_contains :: "pystr \<Rightarrow> json \<Rightarrow> pyexc + bool" where
  "py_contains k (JDict d) = Inr (map_of d k \<noteq> None)"
| "py_contains k (JList xs) = Inr (JStr k \<in> set xs)"
| "py_contains k (JStr s) = Inr (sublist k s)"
| "py_contains k v =
     Inl (PyExc TypeError (str ''argument of type '' @ quoted (type_name v) @ str '' is not iterable''))"

text \<open>\<open>v.strip()\<close>: only a str has the method.\<close>

fun py_strip :: "json \<Rightarrow> pyexc + pystr" where
  "py_strip (JStr s) = Inr (strip s)"
| "py_strip v =
     Inl (PyExc AttributeError (quoted (type_name v) @ str '' object has no attribute '' @ quoted (str ''strip'')))"

section \<open>Configuration and texts\<close>

text \<open>The three environment variables read at import time.\<close>

record config =
  TELEGRAM_TOKEN :: pystr
  GEMINI_KEY :: pystr
  WEBHOOK_SECRET :: pystr

definition TELEGRAM_API :: "config \<Rightarrow> pystr" where
  "TELEGRAM_API cfg = str ''https://api.telegram.org/bot'' @ TELEGRAM_TOKEN cfg"

definition GEMINI_URL :: pystr where
  "GEMINI_URL = str ''https://generativelanguage.googleapis.com/v1beta/models/gemini-2.5-flash:generateContent''"

definition COMMANDS_TEXT :: pystr where
  "COMMANDS_TEXT =
     str ''/quiz [subject] [topic] [n] '' @ [0x2014] @ str '' Generate exam-style questions with feedback.'' @ [0x0A] @
     str ''/flashcards [subject] [topic] [count] '' @ [0x2014] @ str '' Key concept flashcards.'' @ [0x0A] @
     str ''/practice [subject] [topic] [time] '' @ [0x2014] @ str '' Mini exam with marking scheme.'' @ [0x0A] @
     str ''/drill [subject] [topic] [level] '' @ [0x2014] @ str '' Adaptive drills adjusting difficulty.'' @ [0x0A] @
     str ''/check [solution] '' @ [0x2014] @ str '' Mark mistakes, explain corrections.'' @ [0x0A] @
     str ''/strategy [subject/topic] '' @ [0x2014] @ str '' Revision strategy and weak area analysis.'' @ [0x0A] @
     str ''/progress '' @ [0x2014] @ str '' Session progress report.'' @ [0x0A] @
     str ''/stats '' @ [0x2014] @ str '' Accuracy and performance stats.'' @ [0x0A] @
     str ''/leaderboard '' @ [0x2014] @ str '' Compare scores with group/self.'' @ [0x0A] @
     str ''/preset [exam/paper] '' @ [0x2014] @ str '' Load paper-style formats.'' @ [0x0A] @
     str ''/socratic on|off '' @ [0x2014] @ str '' Toggle questioning.'' @ [0x0A] @
     str ''/hint [1|2|3] '' @ [0x2014] @ str '' Set hint depth.'' @ [0x0A] @
     str ''/save '' @ [0x2014] @ str '' Export progress code.'' @ [0x0A] @
     str ''/load [code] '' @ [0x2014] @ str '' Import saved session.'' @ [0x0A] @
     str ''/redo '' @ [0x2014] @ str '' Repeat last activity with new variations.'' @ [0x0A] @
     str ''/next '' @ [0x2014] @ str '' Auto-pick next recommended task.'' @ [0x0A] @
     str ''/random [n] '' @ [0x2014] @ str '' Generate random mix of questions.'' @ [0x0A] @
     str ''/simple on|off '' @ [0x2014] @ str '' Toggle simpler language and shorter math solutions (off by default).'' @ [0x0A] @
     str ''/lang [en|si|ta] '' @ [0x2014] @ str '' Switch language (forced English output regardless).'' @ [0x0A] @
     str ''/help '' @ [0x2014] @ str '' Show all commands and examples.''"

definition FOOTER :: pystr where
  "FOOTER =
     [0x0A] @ str ''---'' @ [0x0A] @ str ''**Developed by Senula Akarsha '' @ [0x2705] @ str ''**'' @ [0x0A] @ str ''---''"

definition SYSTEM_INSTRUCTIONS :: pystr where
  "SYSTEM_INSTRUCTIONS =
     str ''You are an Advanced Level (A/L) multi-subject tutor (Mathematics, Physics, Chemistry, Biology). '' @
     str ''Respond ONLY to educational topics; if non-educational, refuse politely in BOTH English and Sinhala and redirect to study topics.'' @ [0x0A, 0x0A] @
     str ''STYLE:'' @ [0x0A] @
     str ''- Restate the question simply.'' @ [0x0A] @
     str ''- Provide a short 'Plan' before solving.'' @ [0x0A] @
     str ''- Solve step by step; track units/significant figures; include checks and a TL;DR.'' @ [0x0A] @
     str ''- Teach exam tricks and common mistakes.'' @ [0x0A, 0x0A] @
     str ''SUBJECT RULES:'' @ [0x0A] @
     str ''- Math/Physics/Chemistry: formulas and units preserved; show steps.'' @ [0x0A] @
     str ''- Biology: process explanations step by step.'' @ [0x0A] @
     str ''- Programming: full code with comments + example output.'' @ [0x0A] @
     str ''- Writing/History: outline + key evidence.'' @ [0x0A, 0x0A] @
     str ''LANGUAGE:'' @ [0x0A] @
     str ''- Always produce BOTH English and Sinhala full answers.'' @ [0x0A] @
     str ''- Use Sri Lankan A/L textbook Sinhala for scientific terms (e.g., atom='' @ [0x0DB4, 0x0DBB, 0x0DB8, 0x0DCF, 0x0DAB, 0x0DD4, 0x0DC0] @ str '', molecule='' @ [0x0D85, 0x0DB1, 0x0DD4, 0x0DC0] @ str '', nucleus='' @ [0x0DB1, 0x0DCA, 0x200D, 0x0DBA, 0x0DC2, 0x0DCA, 0x0DA7, 0x0DD2, 0x0DBA] @ str '', '' @
     str ''atomic number='' @ [0x0DB4, 0x0DBB, 0x0DB8, 0x0DCF, 0x0DAB, 0x0DD4, 0x0D9A] @ str '' '' @ [0x0D9A, 0x0DCA, 0x200D, 0x0DBB, 0x0DB8, 0x0DCF, 0x0D82, 0x0D9A, 0x0DBA] @ str '', mass number='' @ [0x0DC3, 0x0DCA, 0x0D9A, 0x0DB1, 0x0DCA, 0x0DB0] @ str '' '' @ [0x0D9A, 0x0DCA, 0x200D, 0x0DBB, 0x0DB8, 0x0DCF, 0x0D82, 0x0D9A, 0x0DBA] @ str '', solvent='' @ [0x0DAF, 0x0DCA, 0x200D, 0x0DBB, 0x0DCF, 0x0DC0, 0x0D9A, 0x0DBA] @ str '', catalyst='' @ [0x0D8B, 0x0DAD, 0x0DCA, 0x0DB4, 0x0DCA, 0x200D, 0x0DBB, 0x0DDA, 0x0DBB, 0x0D9A, 0x0DBA] @ str '', diffraction='' @ [0x0DC0, 0x0DD2, 0x0DC0, 0x0DBB, 0x0DCA, 0x0DAD, 0x0DB1, 0x0DBA] @ str ''). '' @
     str ''Preserve formulas/symbols/units exactly.'' @ [0x0A, 0x0A] @
     str ''FILES & OCR:'' @ [0x0A] @
     str ''- If text seems from a scan, be STRICT: do not guess unclear parts; return transcript, mark low-confidence, ask to confirm, offer scan tips.'' @ [0x0A] @
     str ''- For diagrams: describe what is visible; list missing labels and ask for them.'' @ [0x0A, 0x0A] @
     str ''INTERACTIVITY:'' @ [0x0A] @
     str ''- Support quizzes, flashcards, practice, drills, checks, strategy, stats, progress, /socratic, /hint, /simple.'' @ [0x0A, 0x0A] @
     str ''OUTPUT WRAPPER (MANDATORY):'' @ [0x0A] @
     str ''**Answer (English):**'' @ [0x0A] @ str ''<full English explanation>'' @ [0x0A, 0x0A] @
     str ''**Answer (Sinhala):**'' @ [0x0A] @ str ''<full Sinhala explanation with A/L textbook terminology>'' @ [0x0A, 0x0A] @
     str ''After that, append this command list and footer EXACTLY:'' @ [0x0A] @
     COMMANDS_TEXT @ [0x0A] @ FOOTER @ [0x0A]"

definition PROMPT_TEMPLATE_format :: "pystr \<Rightarrow> pystr \<Rightarrow> pystr" where
  "PROMPT_TEMPLATE_format system user =
     system @ [0x0A, 0x0A] @
     str ''User question:'' @ [0x0A] @ user @ [0x0A, 0x0A] @
     str ''Remember:'' @ [0x0A] @
     str ''- Restate the question simply.'' @ [0x0A] @
     str ''- Provide a short Plan.'' @ [0x0A] @
     str ''- Solve with clear steps, units, and checks; add TL;DR and exam tips.'' @ [0x0A] @
     str ''- If non-educational, refuse politely in both English and Sinhala and redirect to learning.'' @ [0x0A] @
     str ''- Return BOTH English and Sinhala sections exactly as specified, then append commands and the footer.''"

definition apology_english :: pystr where
  "apology_english =
     str ''**Answer (English):**'' @ [0x0A] @ str ''Sorry, I couldn't generate a response.'' @ [0x0A, 0x0A]"

definition apology_sinhala :: pystr where
  "apology_sinhala =
     str ''**Answer (Sinhala):**'' @ [0x0A, 0x0D9A, 0x0DAB, 0x0D9C, 0x0DCF, 0x0DA7, 0x0DD4, 0x0DBA, 0x0DD2] @ str '', '' @ [0x0DB4, 0x0DD2, 0x0DC5, 0x0DD2, 0x0DAD, 0x0DD4, 0x0DBB, 0x0D9A, 0x0DCA] @ str '' '' @ [0x0DBD, 0x0DB6, 0x0DCF] @ str '' '' @ [0x0DAF, 0x0DD2, 0x0DBA] @ str '' '' @ [0x0DB1, 0x0DDC, 0x0DC4, 0x0DD0, 0x0D9A, 0x0DD2] @ str '' '' @ [0x0DC0, 0x0DD2, 0x0DBA] @ str ''.'' @ [0x0A, 0x0A]"

definition fallback_out :: pystr where
  "fallback_out = apology_english @ apology_sinhala @ COMMANDS_TEXT @ FOOTER"

section \<open>Outbound HTTP calls\<close>

text \<open>
  Both outbound calls are \<open>client.post\<close> on an \<open>httpx.AsyncClient\<close>. A call is its URL,
  the headers given, the JSON body and the client's timeout in seconds. The world outside
  answers a call, knowing the calls made so far, with an exception or a response; the
  handler's only effect is to add its calls to that history.
\<close>

datatype call = HttpPost pystr "(pystr \<times> pystr) list" json nat

record response =
  status_code :: int
  resp_text :: pystr
  resp_json :: "pyexc + json"

type_synonym env = "call list \<Rightarrow> call \<Rightarrow> pyexc + response"

definition client_post :: "env \<Rightarrow> call \<Rightarrow> call list \<Rightarrow> (pyexc + response) \<times> call list" where
  "client_post env c hist = (env hist c, hist @ [c])"

text \<open>\<open>r.raise_for_status()\<close>: any status outside 200..299 raises.\<close>

definition raise_for_status :: "response \<Rightarrow> pyexc + unit" where
  "raise_for_status r =
     (if 200 \<le> status_code r \<and> status_code r \<le> 299 then Inr ()
      else Inl (HTTPStatusError (status_code r) (resp_text r)))"

subsection \<open>gemini_generate\<close>

text \<open>
  The text returned, in two steps: the value of
  \<^verbatim>\<open>data.get("candidates", [{}])[0].get("content", {}).get("parts", [{}])[0].get("text", "")\<close>
  and then \<^verbatim>\<open>.strip()\<close> on it.
\<close>

definition first_text_part :: "json \<Rightarrow> pyexc + json" where
  "first_text_part data =
     and_then (py_get data (str ''candidates'') (JList [JDict []])) (\<lambda>candidates.
     and_then (py_index0 candidates) (\<lambda>candidate.
     and_then (py_get candidate (str ''content'') (JDict [])) (\<lambda>content.
     and_then (py_get content (str ''parts'') (JList [JDict []])) (\<lambda>parts.
     and_then (py_index0 parts) (\<lambda>part.
     py_get part (str ''text'') (JStr []))))))"

definition extract_text :: "json \<Rightarrow> pyexc + pystr" where
  "extract_text data = and_then (first_text_part data) py_strip"

definition gemini_call :: "config \<Rightarrow> pystr \<Rightarrow> call" where
  "gemini_call cfg prompt_text =
     HttpPost GEMINI_URL
       [(str ''x-goog-api-key'', GEMINI_KEY cfg), (str ''content-type'', str ''application/json'')]
       (JDict [(str ''contents'', JList [JDict [(str ''parts'', JList [JDict [(str ''text'', JStr prompt_text)]])]]),
               (str ''generationConfig'', JDict [(str ''temperature'', JFloat 0.2)])])
       60"

definition gemini_generate ::
  "config \<Rightarrow> env \<Rightarrow> pystr \<Rightarrow> call list \<Rightarrow> (pyexc + pystr) \<times> call list" where
  "gemini_generate cfg env prompt_text hist =
     (case client_post env (gemini_call cfg prompt_text) hist of
        (Inl e, hist') \<Rightarrow> (Inl e, hist')
      | (Inr r, hist') \<Rightarrow>
          (and_then (raise_for_status r) (\<lambda>_. and_then (resp_json r) extract_text), hist'))"

subsection \<open>telegram_send\<close>

text \<open>The payload gets its reply field only when \<open>reply_to\<close> is truthy; the response is not looked at.\<close>

definition send_payload :: "json \<Rightarrow> pystr \<Rightarrow> json \<Rightarrow> json" where
  "send_payload chat_id txt reply_to =
     JDict ([(str ''chat_id'', chat_id), (str ''text'', JStr txt), (str ''parse_mode'', JStr (str ''Markdown''))]
            @ (if truthy reply_to then [(str ''reply_to_message_id'', reply_to)] else []))"

definition sendMessage_call :: "config \<Rightarrow> json \<Rightarrow> call" where
  "sendMessage_call cfg payload = HttpPost (TELEGRAM_API cfg @ str ''/sendMessage'') [] payload 20"

definition telegram_send ::
  "config \<Rightarrow> env \<Rightarrow> json \<Rightarrow> pystr \<Rightarrow> json \<Rightarrow> call list \<Rightarrow> (pyexc + unit) \<times> call list" where
  "telegram_send cfg env chat_id txt reply_to hist =
     (case client_post env (sendMessage_call cfg (send_payload chat_id txt reply_to)) hist of
        (Inl e, hist') \<Rightarrow> (Inl e, hist')
      | (Inr r, hist') \<Rightarrow> (Inr (), hist'))"

section \<open>The webhook handler\<close>

text \<open>\<^verbatim>\<open>msg = update.get("message") or update.get("edited_message")\<close>\<close>

definition select_message :: "json \<Rightarrow> pyexc + json" where
  "select_message update =
     and_then (py_get update (str ''message'') JNull) (\<lambda>m.
       if truthy m then Inr m else py_get update (str ''edited_message'') JNull)"

text \<open>\<^verbatim>\<open>not msg or "text" not in msg\<close>: the membership test runs only on a truthy \<open>msg\<close>.\<close>

definition no_text :: "json \<Rightarrow> pyexc + bool" where
  "no_text msg =
     (if \<not> truthy msg then Inr True
      else and_then (py_contains (str ''text'') msg) (\<lambda>b. Inr (\<not> b)))"

text \<open>The body of the \<open>try\<close> statement.\<close>

definition try_body ::
  "config \<Rightarrow> env \<Rightarrow> json \<Rightarrow> json \<Rightarrow> pystr \<Rightarrow> call list \<Rightarrow> (pyexc + unit) \<times> call list" where
  "try_body cfg env chat_id mid user_text hist =
     (let prompt = PROMPT_TEMPLATE_format SYSTEM_INSTRUCTIONS user_text in
      case gemini_generate cfg env prompt hist of
        (Inl e, hist1) \<Rightarrow> (Inl e, hist1)
      | (Inr out, hist1) \<Rightarrow>
          telegram_send cfg env chat_id (if out = [] then fallback_out else out) mid hist1)"

text \<open>
  The \<open>try\<close> statement with its two handlers, and the final \<open>return\<close>. An exception
  raised by the send inside a handler leaves the function.
\<close>

definition relay ::
  "config \<Rightarrow> env \<Rightarrow> json \<Rightarrow> json \<Rightarrow> pystr \<Rightarrow> call list \<Rightarrow> (pyexc + json) \<times> call list" where
  "relay cfg env chat_id mid user_text hist =
     (case try_body cfg env chat_id mid user_text hist of
        (Inr u, hist1) \<Rightarrow> (Inr (JDict [(str ''ok'', JBool True)]), hist1)
      | (Inl (HTTPStatusError sc body), hist1) \<Rightarrow>
          (case telegram_send cfg env chat_id
                  (str ''API error: '' @ str_int sc @ str '' '' @ [0x2013] @ str '' '' @ body) mid hist1 of
             (Inl e, hist2) \<Rightarrow> (Inl e, hist2)
           | (Inr u, hist2) \<Rightarrow> (Inr (JDict [(str ''ok'', JBool True)]), hist2))
      | (Inl (PyExc c m), hist1) \<Rightarrow>
          (case telegram_send cfg env chat_id (str ''Error: '' @ m) mid hist1 of
             (Inl e, hist2) \<Rightarrow> (Inl e, hist2)
           | (Inr u, hist2) \<Rightarrow> (Inr (JDict [(str ''ok'', JBool True)]), hist2)))"

text \<open>
  \<open>webhook\<close>: \<open>secret\<close> is the path segment, \<open>req_json\<close> what \<open>await req.json()\<close> does
  (it raises on a body that is not JSON), \<open>hist\<close> the outbound calls made so far. The
  result is what the function returns, or the exception that leaves it, and the new history.
\<close>

definition webhook ::
  "config \<Rightarrow> env \<Rightarrow> pystr \<Rightarrow> pyexc + json \<Rightarrow> call list \<Rightarrow> (pyexc + json) \<times> call list" where
  "webhook cfg env secret req_json hist =
     (if secret \<noteq> WEBHOOK_SECRET cfg
      then (Inr (JDict [(str ''ok'', JBool False), (str ''error'', JStr (str ''bad secret''))]), hist)
      else case req_json of
        Inl e \<Rightarrow> (Inl e, hist)
      | Inr update \<Rightarrow>
         (case select_message update of
            Inl e \<Rightarrow> (Inl e, hist)
          | Inr msg \<Rightarrow>
             (case no_text msg of
                Inl e \<Rightarrow> (Inl e, hist)
              | Inr ignore \<Rightarrow>
                 if ignore then (Inr (JDict [(str ''ok'', JBool True)]), hist)
                 else
                  (case and_then (py_getitem msg (str ''chat'')) (\<lambda>chat. py_getitem chat (str ''id'')) of
                     Inl e \<Rightarrow> (Inl e, hist)
                   | Inr chat_id \<Rightarrow>
                      (case py_getitem msg (str ''message_id'') of
                         Inl e \<Rightarrow> (Inl e, hist)
                       | Inr mid \<Rightarrow>
                          (case and_then (py_getitem msg (str ''text'')) py_strip of
                             Inl e \<Rightarrow> (Inl e, hist)
                           | Inr user_text \<Rightarrow> relay cfg env chat_id mid user_text hist))))))"

section \<open>Example requests and answers\<close>

text \<open>Concrete inputs, used below to run the handler.\<close>

definition example_cfg :: config where
  "example_cfg = \<lparr>TELEGRAM_TOKEN = str ''t'', GEMINI_KEY = str ''k'', WEBHOOK_SECRET = str ''s3cret''\<rparr>"

text \<open>\<^verbatim>\<open>{"update_id": 1, "message": {"message_id": 42, "chat": {"id": 7}, "text": " hi "}}\<close>\<close>

definition update_hi :: json where
  "update_hi = JDict [(str ''update_id'', JInt 1),
     (str ''message'', JDict [(str ''message_id'', JInt 42), (str ''chat'', JDict [(str ''id'', JInt 7)]),
                              (str ''text'', JStr (str '' hi ''))])]"

text \<open>\<^verbatim>\<open>{"message": {"text": "hi"}}\<close>\<close>

definition update_no_chat :: json where
  "update_no_chat = JDict [(str ''message'', JDict [(str ''text'', JStr (str ''hi''))])]"

text \<open>\<^verbatim>\<open>{"message": {"message_id": 0, "chat": {"id": 7}, "text": "hi"}}\<close>\<close>

definition update_mid_zero :: json where
  "update_mid_zero = JDict [(str ''message'',
     JDict [(str ''message_id'', JInt 0), (str ''chat'', JDict [(str ''id'', JInt 7)]),
            (str ''text'', JStr (str ''hi''))])]"

text \<open>\<^verbatim>\<open>{"candidates": [{"content": {"parts": [{"text": s}]}}]}\<close>\<close>

definition answer_payload :: "pystr \<Rightarrow> json" where
  "answer_payload s = JDict [(str ''candidates'',
     JList [JDict [(str ''content'', JDict [(str ''parts'', JList [JDict [(str ''text'', JStr s)]])])]])]"

text \<open>A world where every call is answered 200 with the payload above.\<close>

definition env_answers :: "pystr \<Rightarrow> env" where
  "env_answers s = (\<lambda>hist c. Inr \<lparr>status_code = 200, resp_text = [], resp_json = Inr (answer_payload s)\<rparr>)"

text \<open>A world where the first call is answered so and every later call times out.\<close>

definition env_send_fails :: "pystr \<Rightarrow> env" where
  "env_send_fails s = (\<lambda>hist c.
     if hist = [] then Inr \<lparr>status_code = 200, resp_text = [], resp_json = Inr (answer_payload s)\<rparr>
     else Inl (PyExc OtherException (str ''timed out'')))"

text \<open>A world where the first call is answered 429 \<open>rate limited\<close> and every later call times out.\<close>

definition env_rate_limited_send_fails :: env where
  "env_rate_limited_send_fails = (\<lambda>hist c.
     if hist = [] then Inr \<lparr>status_code = 429, resp_text = str ''rate limited'',
                             resp_json = Inl (PyExc OtherException (str ''Expecting value''))\<rparr>
     else Inl (PyExc OtherException (str ''timed out'')))"

text \<open>A world where every call is answered with the given status and a body that is not JSON.\<close>

definition env_status :: "int \<Rightarrow> pystr \<Rightarrow> env" where
  "env_status sc body = (\<lambda>hist c.
     Inr \<lparr>status_code = sc, resp_text = body, resp_json = Inl (PyExc OtherException (str ''Expecting value''))\<rparr>)"

section \<open>Auxiliary facts\<close>

lemmas handler_defs = webhook_def select_message_def no_text_def and_then_def relay_def try_body_def
  gemini_generate_def telegram_send_def client_post_def raise_for_status_def extract_text_def
  first_text_part_def

lemma gemini_generate_eq:
  "gemini_generate cfg env p hist =
     (and_then (env hist (gemini_call cfg p))
        (\<lambda>r. and_then (raise_for_status r) (\<lambda>_. and_then (resp_json r) extract_text)),
      hist @ [gemini_call cfg p])"
  by (simp add: gemini_generate_def client_post_def and_then_def split: sum.splits)

lemma telegram_send_eq:
  "telegram_send cfg env c s m hist =
     (case env hist (sendMessage_call cfg (send_payload c s m)) of Inl e \<Rightarrow> Inl e | Inr r \<Rightarrow> Inr (),
      hist @ [sendMessage_call cfg (send_payload c s m)])"
  by (simp add: telegram_send_def client_post_def split: sum.splits)

lemma select_message_dict:
  "select_message (JDict u) =
     Inr (case map_of u (str ''message'') of
            None \<Rightarrow> (case map_of u (str ''edited_message'') of None \<Rightarrow> JNull | Some e \<Rightarrow> e)
          | Some m \<Rightarrow> if truthy m then m
                      else (case map_of u (str ''edited_message'') of None \<Rightarrow> JNull | Some e \<Rightarrow> e))"
  by (simp add: select_message_def and_then_def split: option.splits)

lemma webhook_select_cong:
  "select_message u1 = select_message u2 \<Longrightarrow>
   webhook cfg env secret (Inr u1) hist = webhook cfg env secret (Inr u2) hist"
  by (simp add: webhook_def)

text \<open>
  A text update the handler can take apart: the selected message is an object with a
  string under \<open>text\<close>, an object with an \<open>id\<close> under \<open>chat\<close>, and a \<open>message_id\<close>.
  The handler then runs the \<open>try\<close> statement on the stripped text.
\<close>

lemma webhook_text_update:
  assumes "secret = WEBHOOK_SECRET cfg"
    and "select_message update = Inr (JDict m)"
    and "map_of m (str ''text'') = Some (JStr t)"
    and "map_of m (str ''chat'') = Some (JDict c)"
    and "map_of c (str ''id'') = Some chat_id"
    and "map_of m (str ''message_id'') = Some mid"
  shows "webhook cfg env secret (Inr update) hist = relay cfg env chat_id mid (strip t) hist"
proof -
  from assms(3) have "m \<noteq> []" by auto
  with assms show ?thesis
    by (simp add: webhook_def no_text_def and_then_def)
qed

lemma strip_whitespace: "\<forall>ch\<in>set s. isspace ch \<Longrightarrow> strip s = []"
proof -
  assume "\<forall>ch\<in>set s. isspace ch"
  then have h: "dropWhile isspace s = []"
    by (simp add: dropWhile_eq_Nil_conv)
  show ?thesis
    by (simp only: strip_def h rev.simps dropWhile.simps)
qed

lemma str_int_429: "str_int 429 = str ''429''"
  by (simp add: str_int_def digits.simps str_def)

text \<open>The two requests, written out.\<close>

lemma gemini_call_explicit:
  "gemini_call cfg p =
     HttpPost (str ''https://generativelanguage.googleapis.com/v1beta/models/gemini-2.5-flash:generateContent'')
       [(str ''x-goog-api-key'', GEMINI_KEY cfg), (str ''content-type'', str ''application/json'')]
       (JDict [(str ''contents'', JList [JDict [(str ''parts'', JList [JDict [(str ''text'', JStr p)]])]]),
               (str ''generationConfig'', JDict [(str ''temperature'', JFloat 0.2)])])
       60"
  by (simp add: gemini_call_def GEMINI_URL_def)

lemma sendMessage_explicit:
  "sendMessage_call cfg (send_payload chat_id s mid) =
     HttpPost (str ''https://api.telegram.org/bot'' @ TELEGRAM_TOKEN cfg @ str ''/sendMessage'') []
       (JDict ([(str ''chat_id'', chat_id), (str ''text'', JStr s), (str ''parse_mode'', JStr (str ''Markdown''))]
               @ (if truthy mid then [(str ''reply_to_message_id'', mid)] else [])))
       20"
  by (simp add: sendMessage_call_def send_payload_def TELEGRAM_API_def)

lemma sendMessage_explicit_reply:
  "truthy mid \<Longrightarrow>
   sendMessage_call cfg (send_payload chat_id s mid) =
     HttpPost (str ''https://api.telegram.org/bot'' @ TELEGRAM_TOKEN cfg @ str ''/sendMessage'') []
       (JDict [(str ''chat_id'', chat_id), (str ''text'', JStr s), (str ''parse_mode'', JStr (str ''Markdown'')),
               (str ''reply_to_message_id'', mid)])
       20"
  by (simp add: sendMessage_call_def send_payload_def TELEGRAM_API_def)

lemma prompt_explicit:
  "PROMPT_TEMPLATE_format SYSTEM_INSTRUCTIONS user_text =
     SYSTEM_INSTRUCTIONS @ [0x0A, 0x0A] @
     str ''User question:'' @ [0x0A] @ user_text @ [0x0A, 0x0A] @
     str ''Remember:'' @ [0x0A] @
     str ''- Restate the question simply.'' @ [0x0A] @
     str ''- Provide a short Plan.'' @ [0x0A] @
     str ''- Solve with clear steps, units, and checks; add TL;DR and exam tips.'' @ [0x0A] @
     str ''- If non-educational, refuse politely in both English and Sinhala and redirect to learning.'' @ [0x0A] @
     str ''- Return BOTH English and Sinhala sections exactly as specified, then append commands and the footer.''"
  by (simp only: PROMPT_TEMPLATE_format_def)

text \<open>What the completion step yields, read off the answer of the outside world.\<close>

lemma gemini_generate_raises:
  assumes "env hist (gemini_call cfg p) = Inl e
     \<or> (\<exists>r. env hist (gemini_call cfg p) = Inr r \<and> \<not> (200 \<le> status_code r \<and> status_code r \<le> 299)
            \<and> e = HTTPStatusError (status_code r) (resp_text r))
     \<or> (\<exists>r. env hist (gemini_call cfg p) = Inr r \<and> 200 \<le> status_code r \<and> status_code r \<le> 299
            \<and> resp_json r = Inl e)
     \<or> (\<exists>r data. env hist (gemini_call cfg p) = Inr r \<and> 200 \<le> status_code r \<and> status_code r \<le> 299
            \<and> resp_json r = Inr data \<and> extract_text data = Inl e)"
  shows "gemini_generate cfg env p hist = (Inl e, hist @ [gemini_call cfg p])"
  using assms by (auto simp: gemini_generate_eq and_then_def raise_for_status_def)

lemma gemini_generate_returns:
  assumes "env hist (gemini_call cfg p) = Inr r" and "200 \<le> status_code r \<and> status_code r \<le> 299"
    and "resp_json r = Inr data" and "extract_text data = Inr out"
  shows "gemini_generate cfg env p hist = (Inr out, hist @ [gemini_call cfg p])"
  using assms by (simp add: gemini_generate_eq and_then_def raise_for_status_def)

text \<open>The two ways through the \<open>try\<close> statement: the completion step raises, or it returns a text.\<close>

lemma relay_reports:
  assumes "gemini_generate cfg env (PROMPT_TEMPLATE_format SYSTEM_INSTRUCTIONS user_text) hist = (Inl e, hist1)"
  shows "relay cfg env chat_id mid user_text hist =
     (case env hist1 (sendMessage_call cfg (send_payload chat_id
              (case e of HTTPStatusError sc body \<Rightarrow> str ''API error: '' @ str_int sc @ str '' '' @ [0x2013] @ str '' '' @ body
                       | PyExc k msg \<Rightarrow> str ''Error: '' @ msg) mid)) of
        Inl e' \<Rightarrow> Inl e' | Inr r \<Rightarrow> Inr (JDict [(str ''ok'', JBool True)]),
      hist1 @ [sendMessage_call cfg (send_payload chat_id
              (case e of HTTPStatusError sc body \<Rightarrow> str ''API error: '' @ str_int sc @ str '' '' @ [0x2013] @ str '' '' @ body
                       | PyExc k msg \<Rightarrow> str ''Error: '' @ msg) mid)])"
  using assms
  by (simp add: relay_def try_body_def Let_def telegram_send_eq split: sum.splits pyexc.splits)

lemma relay_replies:
  assumes "gemini_generate cfg env (PROMPT_TEMPLATE_format SYSTEM_INSTRUCTIONS user_text) hist = (Inr out, hist1)"
  shows "relay cfg env chat_id mid user_text hist =
     (case env hist1 (sendMessage_call cfg (send_payload chat_id (if out = [] then fallback_out else out) mid)) of
        Inr r \<Rightarrow> (Inr (JDict [(str ''ok'', JBool True)]),
                  hist1 @ [sendMessage_call cfg (send_payload chat_id (if out = [] then fallback_out else out) mid)])
      | Inl e1 \<Rightarrow>
          (case env (hist1 @ [sendMessage_call cfg (send_payload chat_id (if out = [] then fallback_out else out) mid)])
                    (sendMessage_call cfg (send_payload chat_id
                       (case e1 of HTTPStatusError sc body \<Rightarrow> str ''API error: '' @ str_int sc @ str '' '' @ [0x2013] @ str '' '' @ body
                                 | PyExc k msg \<Rightarrow> str ''Error: '' @ msg) mid)) of
             Inl e2 \<Rightarrow> Inl e2 | Inr r \<Rightarrow> Inr (JDict [(str ''ok'', JBool True)]),
           hist1 @ [sendMessage_call cfg (send_payload chat_id (if out = [] then fallback_out else out) mid),
                    sendMessage_call cfg (send_payload chat_id
                       (case e1 of HTTPStatusError sc body \<Rightarrow> str ''API error: '' @ str_int sc @ str '' '' @ [0x2013] @ str '' '' @ body
                                 | PyExc k msg \<Rightarrow> str ''Error: '' @ msg) mid)]))"
  using assms
  by (simp add: relay_def try_body_def Let_def telegram_send_eq split: sum.splits pyexc.splits)

text \<open>
  Whatever the outside world does, the completion call is followed by a send; at most one
  more send follows, and none when the first send returns.
\<close>

lemma relay_first_send:
  "\<exists>s rest. snd (relay cfg env chat_id mid user_text hist) =
       hist @ [gemini_call cfg (PROMPT_TEMPLATE_format SYSTEM_INSTRUCTIONS user_text),
               sendMessage_call cfg (send_payload chat_id s mid)] @ rest
     \<and> (rest = [] \<or> (\<exists>s2. rest = [sendMessage_call cfg (send_payload chat_id s2 mid)]))
     \<and> ((\<exists>r. env (hist @ [gemini_call cfg (PROMPT_TEMPLATE_format SYSTEM_INSTRUCTIONS user_text)])
                  (sendMessage_call cfg (send_payload chat_id s mid)) = Inr r)
          \<longrightarrow> rest = [] \<and> fst (relay cfg env chat_id mid user_text hist) = Inr (JDict [(str ''ok'', JBool True)]))"
proof -
  let ?p = "PROMPT_TEMPLATE_format SYSTEM_INSTRUCTIONS user_text"
  obtain g where g: "gemini_generate cfg env ?p hist = (g, hist @ [gemini_call cfg ?p])"
    by (simp add: gemini_generate_eq)
  show ?thesis
  proof (cases g)
    case (Inl e)
    with g have "gemini_generate cfg env ?p hist = (Inl e, hist @ [gemini_call cfg ?p])" by simp
    from relay_reports [OF this, of chat_id mid] show ?thesis
      by (auto split: sum.splits)
  next
    case (Inr out)
    with g have "gemini_generate cfg env ?p hist = (Inr out, hist @ [gemini_call cfg ?p])" by simp
    from relay_replies [OF this, of chat_id mid] show ?thesis
      by (auto split: sum.splits)
  qed
qed

text \<open>The handler uses the history only to add to it.\<close>

lemma relay_frame:
  "relay cfg env chat_id mid user_text hist =
     (fst (relay cfg (\<lambda>h. env (hist @ h)) chat_id mid user_text []),
      hist @ snd (relay cfg (\<lambda>h. env (hist @ h)) chat_id mid user_text []))"
  by (auto simp: relay_def try_body_def Let_def gemini_generate_eq telegram_send_eq
      split: sum.splits pyexc.splits)

lemma webhook_frame:
  "webhook cfg env secret req hist =
     (fst (webhook cfg (\<lambda>h. env (hist @ h)) secret req []),
      hist @ snd (webhook cfg (\<lambda>h. env (hist @ h)) secret req []))"
  using relay_frame [of cfg env _ _ _ hist]
  by (simp add: webhook_def split: sum.splits)

text \<open>The example update \<open>update_hi\<close>, taken apart.\<close>

lemma update_hi_facts:
  "str ''s3cret'' = WEBHOOK_SECRET example_cfg"
  "select_message update_hi =
     Inr (JDict [(str ''message_id'', JInt 42), (str ''chat'', JDict [(str ''id'', JInt 7)]),
                 (str ''text'', JStr (str '' hi ''))])"
  "map_of [(str ''message_id'', JInt 42), (str ''chat'', JDict [(str ''id'', JInt 7)]),
           (str ''text'', JStr (str '' hi ''))] (str ''text'') = Some (JStr (str '' hi ''))"
  "map_of [(str ''message_id'', JInt 42), (str ''chat'', JDict [(str ''id'', JInt 7)]),
           (str ''text'', JStr (str '' hi ''))] (str ''chat'') = Some (JDict [(str ''id'', JInt 7)])"
  "map_of [(str ''id'', JInt 7)] (str ''id'') = Some (JInt 7)"
  "map_of [(str ''message_id'', JInt 42), (str ''chat'', JDict [(str ''id'', JInt 7)]),
           (str ''text'', JStr (str '' hi ''))] (str ''message_id'') = Some (JInt 42)"
  by (simp_all add: example_cfg_def update_hi_def select_message_def and_then_def str_def)

lemma strip_hi: "strip (str '' hi '') = str ''hi''"
  by (simp add: strip_def isspace_def str_def)

section \<open>Properties\<close>

subsection \<open>C1: one completion call, then one send\<close>

text \<open>
  C1, as the code supports it. Take a request with the configured secret whose selected
  message (\<open>message\<close> when truthy, else \<open>edited_message\<close>) is an object with a string
  \<open>text\<close>, a \<open>chat\<close> object with an \<open>id\<close>, and a truthy (non-zero) \<open>message_id\<close>. The
  handler first posts to the completion provider the prompt rendered from the stripped
  text, and next posts a \<open>sendMessage\<close> request whose \<open>chat_id\<close> is the chat's id and
  whose \<open>reply_to_message_id\<close> is the inbound message identifier. There is never a
  second completion call; the only call that can follow is one more such
  \<open>sendMessage\<close>, and when the first send returns, nothing follows: exactly one
  completion call and then exactly one send.
\<close>

theorem text_update_completion_then_send:
  fixes cfg :: config and env :: env and hist :: "call list" and chat_id mid :: json and t :: pystr
  defines "G \<equiv> HttpPost (str ''https://generativelanguage.googleapis.com/v1beta/models/gemini-2.5-flash:generateContent'')
       [(str ''x-goog-api-key'', GEMINI_KEY cfg), (str ''content-type'', str ''application/json'')]
       (JDict [(str ''contents'', JList [JDict [(str ''parts'', JList [JDict [(str ''text'',
                  JStr (SYSTEM_INSTRUCTIONS @ [0x0A, 0x0A] @
                        str ''User question:'' @ [0x0A] @ strip t @ [0x0A, 0x0A] @
                        str ''Remember:'' @ [0x0A] @
                        str ''- Restate the question simply.'' @ [0x0A] @
                        str ''- Provide a short Plan.'' @ [0x0A] @
                        str ''- Solve with clear steps, units, and checks; add TL;DR and exam tips.'' @ [0x0A] @
                        str ''- If non-educational, refuse politely in both English and Sinhala and redirect to learning.'' @ [0x0A] @
                        str ''- Return BOTH English and Sinhala sections exactly as specified, then append commands and the footer.''))]])]]),
               (str ''generationConfig'', JDict [(str ''temperature'', JFloat 0.2)])])
       60"
    and "S \<equiv> \<lambda>s. HttpPost (str ''https://api.telegram.org/bot'' @ TELEGRAM_TOKEN cfg @ str ''/sendMessage'') []
       (JDict [(str ''chat_id'', chat_id), (str ''text'', JStr s), (str ''parse_mode'', JStr (str ''Markdown'')),
               (str ''reply_to_message_id'', mid)])
       20"
  assumes "secret = WEBHOOK_SECRET cfg"
    and "select_message update = Inr (JDict m)"
    and "map_of m (str ''text'') = Some (JStr t)"
    and "map_of m (str ''chat'') = Some (JDict c)"
    and "map_of c (str ''id'') = Some chat_id"
    and "map_of m (str ''message_id'') = Some mid"
    and "truthy mid"
  shows "\<exists>s rest. snd (webhook cfg env secret (Inr update) hist) = hist @ [G, S s] @ rest
           \<and> (rest = [] \<or> (\<exists>s2. rest = [S s2]))
           \<and> ((\<exists>r. env (hist @ [G]) (S s) = Inr r) \<longrightarrow> rest = [])"
proof -
  have W: "webhook cfg env secret (Inr update) hist = relay cfg env chat_id mid (strip t) hist"
    using assms(3-8) by (rule webhook_text_update)
  have G: "gemini_call cfg (PROMPT_TEMPLATE_format SYSTEM_INSTRUCTIONS (strip t)) = G"
    by (simp only: G_def gemini_call_explicit prompt_explicit)
  have S: "sendMessage_call cfg (send_payload chat_id s mid) = S s" for s
    using assms(9) by (simp only: S_def sendMessage_explicit_reply)
  from relay_first_send [of cfg env chat_id mid "strip t" hist] show ?thesis
    unfolding W G S by blast
qed

theorem text_update_completion_then_send_witness:
  "\<exists>s. snd (webhook example_cfg (env_answers (str ''yo'')) (str ''s3cret'') (Inr update_hi) []) =
      [gemini_call example_cfg (PROMPT_TEMPLATE_format SYSTEM_INSTRUCTIONS (str ''hi'')),
       HttpPost (str ''https://api.telegram.org/bot'' @ str ''t'' @ str ''/sendMessage'') []
         (JDict [(str ''chat_id'', JInt 7), (str ''text'', JStr s), (str ''parse_mode'', JStr (str ''Markdown'')),
                 (str ''reply_to_message_id'', JInt 42)]) 20]"
proof -
  have "truthy (JInt 42)" by simp
  from text_update_completion_then_send
    [where env = "env_answers (str ''yo'')" and hist = "[]", OF update_hi_facts this]
  show ?thesis
    by (auto simp: env_answers_def gemini_call_explicit PROMPT_TEMPLATE_format_def strip_hi example_cfg_def)
qed

text \<open>
  As C1 is worded (any matching request whose body has a message with a text field) it
  fails in three ways. A message with \<open>text\<close> but no \<open>chat\<close> raises \<open>KeyError\<close> before any
  call. With \<open>message_id\<close> 0 the payload sent has no \<open>reply_to_message_id\<close>. When the
  reply send times out, the handler for \<open>Exception\<close> sends a second message.
\<close>

theorem text_update_calls_counterexample:
  "webhook example_cfg (env_answers (str ''yo'')) (str ''s3cret'') (Inr update_no_chat) [] =
     (Inl (PyExc KeyError (quoted (str ''chat''))), [])
   \<and> snd (webhook example_cfg (env_answers (str ''yo'')) (str ''s3cret'') (Inr update_mid_zero) []) =
     [gemini_call example_cfg (PROMPT_TEMPLATE_format SYSTEM_INSTRUCTIONS (str ''hi'')),
      HttpPost (TELEGRAM_API example_cfg @ str ''/sendMessage'') []
        (JDict [(str ''chat_id'', JInt 7), (str ''text'', JStr (str ''yo'')),
                (str ''parse_mode'', JStr (str ''Markdown''))]) 20]
   \<and> snd (webhook example_cfg (env_send_fails (str ''yo'')) (str ''s3cret'') (Inr update_hi) []) =
     [gemini_call example_cfg (PROMPT_TEMPLATE_format SYSTEM_INSTRUCTIONS (str ''hi'')),
      sendMessage_call example_cfg (send_payload (JInt 7) (str ''yo'') (JInt 42)),
      sendMessage_call example_cfg (send_payload (JInt 7) (str ''Error: timed out'') (JInt 42))]"
  by (simp add: handler_defs str_def example_cfg_def update_hi_def update_no_chat_def update_mid_zero_def
      env_answers_def env_send_fails_def answer_payload_def strip_def isspace_def
      sendMessage_call_def send_payload_def)

subsection \<open>C2: a provider error 429 is reported to the chat\<close>

text \<open>
  C2, as the code supports it. For a text update as above, if the completion call is
  answered with status 429 and body \<open>rate limited\<close> (so that \<open>raise_for_status\<close> raises),
  the handler makes exactly one further call: a \<open>sendMessage\<close> request to the chat
  whose text is \<open>API error: 429 \<close>, an en dash, \<open> rate limited\<close>, which contains both
  \<open>429\<close> and \<open>rate limited\<close>. When that send returns, the handler returns
  \<open>{"ok": true}\<close>; when it raises, its exception leaves the handler.
\<close>

theorem provider_rate_limit_reported:
  fixes cfg :: config and env :: env and hist :: "call list" and chat_id mid :: json and t :: pystr
  defines "G \<equiv> HttpPost (str ''https://generativelanguage.googleapis.com/v1beta/models/gemini-2.5-flash:generateContent'')
       [(str ''x-goog-api-key'', GEMINI_KEY cfg), (str ''content-type'', str ''application/json'')]
       (JDict [(str ''contents'', JList [JDict [(str ''parts'', JList [JDict [(str ''text'',
                  JStr (PROMPT_TEMPLATE_format SYSTEM_INSTRUCTIONS (strip t)))]])]]),
               (str ''generationConfig'', JDict [(str ''temperature'', JFloat 0.2)])])
       60"
    and "S \<equiv> HttpPost (str ''https://api.telegram.org/bot'' @ TELEGRAM_TOKEN cfg @ str ''/sendMessage'') []
       (JDict ([(str ''chat_id'', chat_id),
                (str ''text'', JStr (str ''API error: 429 '' @ [0x2013] @ str '' rate limited'')),
                (str ''parse_mode'', JStr (str ''Markdown''))]
               @ (if truthy mid then [(str ''reply_to_message_id'', mid)] else [])))
       20"
  assumes "secret = WEBHOOK_SECRET cfg"
    and "select_message update = Inr (JDict m)"
    and "map_of m (str ''text'') = Some (JStr t)"
    and "map_of m (str ''chat'') = Some (JDict c)"
    and "map_of c (str ''id'') = Some chat_id"
    and "map_of m (str ''message_id'') = Some mid"
    and "env hist G = Inr r"
    and "status_code r = 429"
    and "resp_text r = str ''rate limited''"
  shows "snd (webhook cfg env secret (Inr update) hist) = hist @ [G, S]
         \<and> sublist (str ''429'') (str ''API error: 429 '' @ [0x2013] @ str '' rate limited'')
         \<and> sublist (str ''rate limited'') (str ''API error: 429 '' @ [0x2013] @ str '' rate limited'')
         \<and> fst (webhook cfg env secret (Inr update) hist) =
             (case env (hist @ [G]) S of Inl e \<Rightarrow> Inl e | Inr r' \<Rightarrow> Inr (JDict [(str ''ok'', JBool True)]))"
proof -
  let ?p = "PROMPT_TEMPLATE_format SYSTEM_INSTRUCTIONS (strip t)"
  let ?s = "str ''API error: 429 '' @ [0x2013] @ str '' rate limited''"
  have W: "webhook cfg env secret (Inr update) hist = relay cfg env chat_id mid (strip t) hist"
    using assms(3-8) by (rule webhook_text_update)
  have G: "gemini_call cfg ?p = G"
    by (simp only: G_def gemini_call_explicit)
  have S: "sendMessage_call cfg (send_payload chat_id ?s mid) = S"
    by (simp only: S_def sendMessage_explicit)
  have raw: "str ''API error: '' @ str_int 429 @ str '' '' @ [0x2013] @ str '' '' @ str ''rate limited'' = ?s"
    by (simp add: str_int_429) (simp add: str_def)
  have "gemini_generate cfg env ?p hist = (Inl (HTTPStatusError 429 (str ''rate limited'')), hist @ [gemini_call cfg ?p])"
    using assms(9-11) by (intro gemini_generate_raises) (simp add: G)
  from relay_reports [OF this, of chat_id mid]
  have "relay cfg env chat_id mid (strip t) hist =
     (case env (hist @ [G]) S of Inl e' \<Rightarrow> Inl e' | Inr r \<Rightarrow> Inr (JDict [(str ''ok'', JBool True)]), hist @ [G, S])"
    by (simp only: pyexc.case raw G S) simp
  moreover have "sublist (str ''429'') ?s" "sublist (str ''rate limited'') ?s"
    by (simp_all add: str_def sublist_Cons_right)
  ultimately show ?thesis using W by simp
qed

theorem provider_rate_limit_reported_witness:
  "webhook example_cfg (env_status 429 (str ''rate limited'')) (str ''s3cret'') (Inr update_hi) [] =
     (Inr (JDict [(str ''ok'', JBool True)]),
      [gemini_call example_cfg (PROMPT_TEMPLATE_format SYSTEM_INSTRUCTIONS (str ''hi'')),
       HttpPost (str ''https://api.telegram.org/bot'' @ str ''t'' @ str ''/sendMessage'') []
         (JDict [(str ''chat_id'', JInt 7),
                 (str ''text'', JStr (str ''API error: 429 '' @ [0x2013] @ str '' rate limited'')),
                 (str ''parse_mode'', JStr (str ''Markdown'')),
                 (str ''reply_to_message_id'', JInt 42)]) 20])"
proof -
  have "env_status 429 (str ''rate limited'') []
     (HttpPost (str ''https://generativelanguage.googleapis.com/v1beta/models/gemini-2.5-flash:generateContent'')
       [(str ''x-goog-api-key'', GEMINI_KEY example_cfg), (str ''content-type'', str ''application/json'')]
       (JDict [(str ''contents'', JList [JDict [(str ''parts'', JList [JDict [(str ''text'',
                  JStr (PROMPT_TEMPLATE_format SYSTEM_INSTRUCTIONS (strip (str '' hi ''))))]])]]),
               (str ''generationConfig'', JDict [(str ''temperature'', JFloat 0.2)])])
       60) =
     Inr \<lparr>status_code = 429, resp_text = str ''rate limited'',
          resp_json = Inl (PyExc OtherException (str ''Expecting value''))\<rparr>"
    by (simp add: env_status_def)
  from provider_rate_limit_reported
    [where env = "env_status 429 (str ''rate limited'')" and hist = "[]", OF update_hi_facts this]
  show ?thesis
    by (simp add: env_status_def gemini_call_explicit strip_hi example_cfg_def prod_eq_iff)
qed

text \<open>
  As C2 is worded (the handler still returns \<open>{"ok": true}\<close>) it fails when the provider
  answers 429 and the send of the report times out: the send is made from the handler of
  \<open>HTTPStatusError\<close>, outside any \<open>try\<close>, and its exception leaves \<open>webhook\<close>.
\<close>

theorem rate_limit_send_fails_counterexample:
  "fst (webhook example_cfg env_rate_limited_send_fails (str ''s3cret'') (Inr update_hi) []) =
     Inl (PyExc OtherException (str ''timed out''))"
  by (simp add: handler_defs str_def example_cfg_def update_hi_def env_rate_limited_send_fails_def
      strip_def isspace_def)

subsection \<open>C3: updates without a message or without text are ignored\<close>

text \<open>
  C3, as the code supports it. Take a request with the configured secret whose body is
  a JSON object. If the body has neither \<open>message\<close> nor \<open>edited_message\<close>, or the selected
  message is falsy, or the test \<open>"text" in msg\<close> on it is false (an object without that
  key, a list without that element, a string without that substring), the handler
  returns \<open>{"ok": true}\<close> and adds no outbound call.
\<close>

theorem ignored_update_acknowledged:
  assumes "secret = WEBHOOK_SECRET cfg"
    and "(map_of u (str ''message'') = None \<and> map_of u (str ''edited_message'') = None)
         \<or> (\<exists>msg. select_message (JDict u) = Inr msg
               \<and> (\<not> truthy msg \<or> py_contains (str ''text'') msg = Inr False))"
  shows "webhook cfg env secret (Inr (JDict u)) hist = (Inr (JDict [(str ''ok'', JBool True)]), hist)"
proof -
  from assms(2) obtain msg where sel: "select_message (JDict u) = Inr msg"
    and msg: "\<not> truthy msg \<or> py_contains (str ''text'') msg = Inr False"
    by (auto simp: select_message_dict)
  from msg have "no_text msg = Inr True"
    by (auto simp: no_text_def and_then_def)
  with sel assms(1) show ?thesis
    by (simp add: webhook_def)
qed

theorem ignored_update_acknowledged_witness:
  "webhook example_cfg (env_answers (str ''yo'')) (str ''s3cret'') (Inr (JDict [(str ''update_id'', JInt 1)])) [] =
     (Inr (JDict [(str ''ok'', JBool True)]), [])
   \<and> webhook example_cfg (env_answers (str ''yo'')) (str ''s3cret'')
        (Inr (JDict [(str ''message'', JDict [(str ''message_id'', JInt 42), (str ''photo'', JList [])])])) [] =
     (Inr (JDict [(str ''ok'', JBool True)]), [])"
proof
  show "webhook example_cfg (env_answers (str ''yo'')) (str ''s3cret'') (Inr (JDict [(str ''update_id'', JInt 1)])) [] =
     (Inr (JDict [(str ''ok'', JBool True)]), [])"
    by (rule ignored_update_acknowledged) (simp_all add: example_cfg_def str_def)
  show "webhook example_cfg (env_answers (str ''yo'')) (str ''s3cret'')
        (Inr (JDict [(str ''message'', JDict [(str ''message_id'', JInt 42), (str ''photo'', JList [])])])) [] =
     (Inr (JDict [(str ''ok'', JBool True)]), [])"
    by (rule ignored_update_acknowledged) (simp_all add: example_cfg_def str_def select_message_def and_then_def)
qed

text \<open>
  As C3 is worded it fails on \<^verbatim>\<open>{"message": 5}\<close>: the message has no text field, and
  \<open>"text" not in 5\<close> raises \<open>TypeError\<close>, so no acknowledgment is returned.
\<close>

theorem number_message_counterexample:
  "webhook example_cfg (env_answers (str ''yo'')) (str ''s3cret'') (Inr (JDict [(str ''message'', JInt 5)])) [] =
     (Inl (PyExc TypeError (str ''argument of type '' @ quoted (str ''int'') @ str '' is not iterable'')), [])"
  by (simp add: handler_defs str_def example_cfg_def)

subsection \<open>C4: a wrong secret is rejected\<close>

text \<open>
  C4. A request whose path secret differs from the configured one is answered with
  \<open>{"ok": false, "error": "bad secret"}\<close> and adds no outbound call, whatever reading its
  body would give.
\<close>

theorem bad_secret_rejected:
  "secret \<noteq> WEBHOOK_SECRET cfg \<Longrightarrow>
   webhook cfg env secret req_json hist =
     (Inr (JDict [(str ''ok'', JBool False), (str ''error'', JStr (str ''bad secret''))]), hist)"
  by (simp add: webhook_def)

theorem bad_secret_rejected_witness:
  "str ''guess'' \<noteq> WEBHOOK_SECRET example_cfg \<and>
   webhook example_cfg (env_answers (str ''yo'')) (str ''guess'') (Inr update_hi) [] =
     (Inr (JDict [(str ''ok'', JBool False), (str ''error'', JStr (str ''bad secret''))]), [])"
proof -
  have ne: "str ''guess'' \<noteq> WEBHOOK_SECRET example_cfg"
    by (simp add: str_def example_cfg_def)
  from bad_secret_rejected [OF ne] ne show ?thesis by blast
qed

subsection \<open>C5: an empty completion is replaced by the fallback text\<close>

text \<open>
  C5. For a text update as above, if the completion call is answered with a 2xx status
  and a JSON payload whose first text part is empty or consists of whitespace only
  (so the stripped text is empty), then the call after the completion call is a
  \<open>sendMessage\<close> request to the chat whose \<open>text\<close> is the fixed fallback text: the
  English apology, the Sinhala apology, the command list and the footer, in this order
  and nothing else. When that send returns, no further call is made.
\<close>

theorem empty_completion_sends_fallback:
  fixes cfg :: config and env :: env and hist :: "call list" and chat_id mid :: json and t :: pystr
  defines "G \<equiv> HttpPost (str ''https://generativelanguage.googleapis.com/v1beta/models/gemini-2.5-flash:generateContent'')
       [(str ''x-goog-api-key'', GEMINI_KEY cfg), (str ''content-type'', str ''application/json'')]
       (JDict [(str ''contents'', JList [JDict [(str ''parts'', JList [JDict [(str ''text'',
                  JStr (PROMPT_TEMPLATE_format SYSTEM_INSTRUCTIONS (strip t)))]])]]),
               (str ''generationConfig'', JDict [(str ''temperature'', JFloat 0.2)])])
       60"
    and "S \<equiv> HttpPost (str ''https://api.telegram.org/bot'' @ TELEGRAM_TOKEN cfg @ str ''/sendMessage'') []
       (JDict ([(str ''chat_id'', chat_id),
                (str ''text'', JStr (apology_english @ apology_sinhala @ COMMANDS_TEXT @ FOOTER)),
                (str ''parse_mode'', JStr (str ''Markdown''))]
               @ (if truthy mid then [(str ''reply_to_message_id'', mid)] else [])))
       20"
  assumes "secret = WEBHOOK_SECRET cfg"
    and "select_message update = Inr (JDict m)"
    and "map_of m (str ''text'') = Some (JStr t)"
    and "map_of m (str ''chat'') = Some (JDict c)"
    and "map_of c (str ''id'') = Some chat_id"
    and "map_of m (str ''message_id'') = Some mid"
    and "env hist G = Inr r"
    and "200 \<le> status_code r \<and> status_code r \<le> 299"
    and "resp_json r = Inr data"
    and "first_text_part data = Inr (JStr s)"
    and "\<forall>ch\<in>set s. isspace ch"
  shows "\<exists>rest. snd (webhook cfg env secret (Inr update) hist) = hist @ [G, S] @ rest
         \<and> ((\<exists>r'. env (hist @ [G]) S = Inr r') \<longrightarrow> rest = [])"
proof -
  let ?p = "PROMPT_TEMPLATE_format SYSTEM_INSTRUCTIONS (strip t)"
  have W: "webhook cfg env secret (Inr update) hist = relay cfg env chat_id mid (strip t) hist"
    using assms(3-8) by (rule webhook_text_update)
  have G: "gemini_call cfg ?p = G"
    by (simp only: G_def gemini_call_explicit)
  have S: "sendMessage_call cfg (send_payload chat_id fallback_out mid) = S"
    by (simp only: S_def sendMessage_explicit fallback_out_def)
  have "extract_text data = Inr []"
    using assms(12,13) by (simp add: extract_text_def and_then_def strip_whitespace)
  with assms(9-11) have "gemini_generate cfg env ?p hist = (Inr [], hist @ [gemini_call cfg ?p])"
    by (intro gemini_generate_returns) (simp_all add: G)
  from relay_replies [OF this, of chat_id mid] show ?thesis
    unfolding W by (auto simp: G S split: sum.splits)
qed

theorem empty_completion_sends_fallback_witness:
  "snd (webhook example_cfg (env_answers [0x20, 0x0A]) (str ''s3cret'') (Inr update_hi) []) =
      [gemini_call example_cfg (PROMPT_TEMPLATE_format SYSTEM_INSTRUCTIONS (str ''hi'')),
       HttpPost (str ''https://api.telegram.org/bot'' @ str ''t'' @ str ''/sendMessage'') []
         (JDict [(str ''chat_id'', JInt 7),
                 (str ''text'', JStr (apology_english @ apology_sinhala @ COMMANDS_TEXT @ FOOTER)),
                 (str ''parse_mode'', JStr (str ''Markdown'')),
                 (str ''reply_to_message_id'', JInt 42)]) 20]"
proof -
  have a: "env_answers [0x20, 0x0A] []
     (HttpPost (str ''https://generativelanguage.googleapis.com/v1beta/models/gemini-2.5-flash:generateContent'')
       [(str ''x-goog-api-key'', GEMINI_KEY example_cfg), (str ''content-type'', str ''application/json'')]
       (JDict [(str ''contents'', JList [JDict [(str ''parts'', JList [JDict [(str ''text'',
                  JStr (PROMPT_TEMPLATE_format SYSTEM_INSTRUCTIONS (strip (str '' hi ''))))]])]]),
               (str ''generationConfig'', JDict [(str ''temperature'', JFloat 0.2)])])
       60) =
     Inr \<lparr>status_code = 200, resp_text = [], resp_json = Inr (answer_payload [0x20, 0x0A])\<rparr>"
    by (simp add: env_answers_def)
  have b: "200 \<le> status_code \<lparr>status_code = 200, resp_text = [], resp_json = Inr (answer_payload [0x20, 0x0A])\<rparr>
         \<and> status_code \<lparr>status_code = 200, resp_text = [], resp_json = Inr (answer_payload [0x20, 0x0A])\<rparr> \<le> 299"
    "resp_json \<lparr>status_code = 200, resp_text = [], resp_json = Inr (answer_payload [0x20, 0x0A])\<rparr>
       = Inr (answer_payload [0x20, 0x0A])"
    "first_text_part (answer_payload [0x20, 0x0A]) = Inr (JStr [0x20, 0x0A])"
    "\<forall>ch\<in>set [0x20, 0x0A]. isspace ch"
    by (simp_all add: answer_payload_def first_text_part_def and_then_def str_def isspace_def)
  from empty_completion_sends_fallback
    [where env = "env_answers [0x20, 0x0A]" and hist = "[]", OF update_hi_facts a b]
  show ?thesis
    by (auto simp: env_answers_def gemini_call_explicit strip_hi example_cfg_def)
qed

subsection \<open>C6: what the handler does with downstream failures\<close>

text \<open>
  C6, as the code supports it. Take a request with the configured secret and a text
  update as above.

  \<^item> When the completion step fails in any way (the call itself raises, such as a network
    error; the answer has a status outside 200..299; the answer is not JSON; the
    extraction raises on a malformed payload), the failure is caught: the handler makes
    exactly one further call, a \<open>sendMessage\<close> request to the chat reporting it
    (\<open>API error: \<close> status, en dash, body for an \<open>HTTPStatusError\<close>, \<open>Error: \<close> and the
    exception's text otherwise), and returns \<open>{"ok": true}\<close> when that send returns.
  \<^item> When the completion step returns a text, the handler sends it (or the fallback
    text when it is empty) and returns \<open>{"ok": true}\<close> when that send returns; when
    that send raises, the exception is caught and reported by one more send, and the
    handler returns \<open>{"ok": true}\<close> when the report returns.

  In both cases only the exception of a send made from an exception handler leaves
  \<open>webhook\<close>.
\<close>

theorem downstream_outcomes_reported_and_acknowledged:
  fixes cfg :: config and env :: env and hist :: "call list" and chat_id mid :: json and t :: pystr
  defines "G \<equiv> HttpPost (str ''https://generativelanguage.googleapis.com/v1beta/models/gemini-2.5-flash:generateContent'')
       [(str ''x-goog-api-key'', GEMINI_KEY cfg), (str ''content-type'', str ''application/json'')]
       (JDict [(str ''contents'', JList [JDict [(str ''parts'', JList [JDict [(str ''text'',
                  JStr (PROMPT_TEMPLATE_format SYSTEM_INSTRUCTIONS (strip t)))]])]]),
               (str ''generationConfig'', JDict [(str ''temperature'', JFloat 0.2)])])
       60"
    and "S \<equiv> \<lambda>s. HttpPost (str ''https://api.telegram.org/bot'' @ TELEGRAM_TOKEN cfg @ str ''/sendMessage'') []
       (JDict ([(str ''chat_id'', chat_id), (str ''text'', JStr s), (str ''parse_mode'', JStr (str ''Markdown''))]
               @ (if truthy mid then [(str ''reply_to_message_id'', mid)] else [])))
       20"
    and "report \<equiv> \<lambda>e. case e of
           HTTPStatusError sc body \<Rightarrow> str ''API error: '' @ str_int sc @ str '' '' @ [0x2013] @ str '' '' @ body
         | PyExc k msg \<Rightarrow> str ''Error: '' @ msg"
    and "reply \<equiv> \<lambda>out. if out = [] then apology_english @ apology_sinhala @ COMMANDS_TEXT @ FOOTER else out"
  assumes "secret = WEBHOOK_SECRET cfg"
    and "select_message update = Inr (JDict m)"
    and "map_of m (str ''text'') = Some (JStr t)"
    and "map_of m (str ''chat'') = Some (JDict c)"
    and "map_of c (str ''id'') = Some chat_id"
    and "map_of m (str ''message_id'') = Some mid"
  shows "(\<forall>e. (env hist G = Inl e
              \<or> (\<exists>r. env hist G = Inr r \<and> \<not> (200 \<le> status_code r \<and> status_code r \<le> 299)
                     \<and> e = HTTPStatusError (status_code r) (resp_text r))
              \<or> (\<exists>r. env hist G = Inr r \<and> 200 \<le> status_code r \<and> status_code r \<le> 299
                     \<and> resp_json r = Inl e)
              \<or> (\<exists>r data. env hist G = Inr r \<and> 200 \<le> status_code r \<and> status_code r \<le> 299
                     \<and> resp_json r = Inr data \<and> extract_text data = Inl e))
            \<longrightarrow> snd (webhook cfg env secret (Inr update) hist) = hist @ [G, S (report e)]
               \<and> fst (webhook cfg env secret (Inr update) hist) =
                   (case env (hist @ [G]) (S (report e)) of
                      Inl e' \<Rightarrow> Inl e' | Inr r' \<Rightarrow> Inr (JDict [(str ''ok'', JBool True)])))
         \<and> (\<forall>r data out. env hist G = Inr r \<and> 200 \<le> status_code r \<and> status_code r \<le> 299
                     \<and> resp_json r = Inr data \<and> extract_text data = Inr out
            \<longrightarrow> (case env (hist @ [G]) (S (reply out)) of
                    Inr r' \<Rightarrow> webhook cfg env secret (Inr update) hist =
                       (Inr (JDict [(str ''ok'', JBool True)]), hist @ [G, S (reply out)])
                  | Inl e1 \<Rightarrow>
                      snd (webhook cfg env secret (Inr update) hist) =
                        hist @ [G, S (reply out), S (report e1)]
                      \<and> fst (webhook cfg env secret (Inr update) hist) =
                          (case env (hist @ [G, S (reply out)]) (S (report e1)) of
                             Inl e2 \<Rightarrow> Inl e2 | Inr r' \<Rightarrow> Inr (JDict [(str ''ok'', JBool True)]))))"
proof -
  let ?p = "PROMPT_TEMPLATE_format SYSTEM_INSTRUCTIONS (strip t)"
  have W: "webhook cfg env secret (Inr update) hist = relay cfg env chat_id mid (strip t) hist"
    using assms(5-10) by (rule webhook_text_update)
  have G: "gemini_call cfg ?p = G"
    by (simp only: G_def gemini_call_explicit)
  have S: "sendMessage_call cfg (send_payload chat_id s mid) = S s" for s
    by (simp only: S_def sendMessage_explicit)
  have R: "(if out = [] then fallback_out else out) = reply out" for out
    by (simp only: reply_def fallback_out_def)
  have fails: "snd (relay cfg env chat_id mid (strip t) hist) = hist @ [G, S (report e)]
      \<and> fst (relay cfg env chat_id mid (strip t) hist) =
          (case env (hist @ [G]) (S (report e)) of Inl e' \<Rightarrow> Inl e' | Inr r' \<Rightarrow> Inr (JDict [(str ''ok'', JBool True)]))"
    if "env hist G = Inl e
        \<or> (\<exists>r. env hist G = Inr r \<and> \<not> (200 \<le> status_code r \<and> status_code r \<le> 299)
               \<and> e = HTTPStatusError (status_code r) (resp_text r))
        \<or> (\<exists>r. env hist G = Inr r \<and> 200 \<le> status_code r \<and> status_code r \<le> 299 \<and> resp_json r = Inl e)
        \<or> (\<exists>r data. env hist G = Inr r \<and> 200 \<le> status_code r \<and> status_code r \<le> 299
               \<and> resp_json r = Inr data \<and> extract_text data = Inl e)" for e
  proof -
    have "gemini_generate cfg env ?p hist = (Inl e, hist @ [gemini_call cfg ?p])"
      using that unfolding G [symmetric] by (rule gemini_generate_raises)
    from relay_reports [OF this, of chat_id mid] show ?thesis
      by (simp add: G S report_def)
  qed
  have returns: "case env (hist @ [G]) (S (reply out)) of
                    Inr r' \<Rightarrow> relay cfg env chat_id mid (strip t) hist =
                       (Inr (JDict [(str ''ok'', JBool True)]), hist @ [G, S (reply out)])
                  | Inl e1 \<Rightarrow>
                      snd (relay cfg env chat_id mid (strip t) hist) =
                        hist @ [G, S (reply out), S (report e1)]
                      \<and> fst (relay cfg env chat_id mid (strip t) hist) =
                          (case env (hist @ [G, S (reply out)]) (S (report e1)) of
                             Inl e2 \<Rightarrow> Inl e2 | Inr r' \<Rightarrow> Inr (JDict [(str ''ok'', JBool True)]))"
    if "env hist G = Inr r" "200 \<le> status_code r \<and> status_code r \<le> 299"
       "resp_json r = Inr data" "extract_text data = Inr out" for r data out
  proof -
    have "gemini_generate cfg env ?p hist = (Inr out, hist @ [gemini_call cfg ?p])"
      using that unfolding G [symmetric] by (rule gemini_generate_returns)
    from relay_replies [OF this, of chat_id mid] show ?thesis
      unfolding R by (simp add: G S report_def split: sum.splits)
  qed
  show ?thesis
    unfolding W using fails returns by blast
qed

theorem downstream_outcomes_reported_and_acknowledged_witness:
  "webhook example_cfg (env_status 500 (str ''boom'')) (str ''s3cret'') (Inr update_hi) [] =
     (Inr (JDict [(str ''ok'', JBool True)]),
      [gemini_call example_cfg (PROMPT_TEMPLATE_format SYSTEM_INSTRUCTIONS (str ''hi'')),
       HttpPost (str ''https://api.telegram.org/bot'' @ str ''t'' @ str ''/sendMessage'') []
         (JDict [(str ''chat_id'', JInt 7),
                 (str ''text'', JStr (str ''API error: 500 '' @ [0x2013] @ str '' boom'')),
                 (str ''parse_mode'', JStr (str ''Markdown'')),
                 (str ''reply_to_message_id'', JInt 42)]) 20])"
proof -
  have "str_int 500 = str ''500''"
    by (simp add: str_int_def digits.simps str_def)
  with downstream_outcomes_reported_and_acknowledged
      [where env = "env_status 500 (str ''boom'')" and hist = "[]", OF update_hi_facts,
       THEN conjunct1, rule_format, of "HTTPStatusError 500 (str ''boom'')"]
  show ?thesis
    by (simp add: env_status_def gemini_call_explicit strip_hi example_cfg_def prod_eq_iff)
       (simp add: str_def)
qed

text \<open>
  As C6 is worded (every request, whatever the downstream calls do) it fails: when the
  sends time out, the exception of the error report leaves the handler, and a message
  with \<open>text\<close> but no \<open>chat\<close> raises \<open>KeyError\<close> before the \<open>try\<close> statement.
\<close>

theorem handler_raises_counterexample:
  "fst (webhook example_cfg (env_send_fails (str ''yo'')) (str ''s3cret'') (Inr update_hi) []) =
     Inl (PyExc OtherException (str ''timed out''))
   \<and> fst (webhook example_cfg (env_answers (str ''yo'')) (str ''s3cret'') (Inr update_no_chat) []) =
     Inl (PyExc KeyError (quoted (str ''chat'')))"
  by (simp add: handler_defs str_def example_cfg_def update_hi_def update_no_chat_def
      env_answers_def env_send_fails_def answer_payload_def strip_def isspace_def)

subsection \<open>C7: extracting the first text part\<close>

text \<open>
  C7, as the code supports it. On a JSON object payload the extraction returns a string,
  without raising, along every path on which each expected field is either absent or
  has its expected shape (\<open>candidates\<close> and \<open>parts\<close> a non-empty list headed by an
  object, \<open>content\<close> an object, \<open>text\<close> a string): an absent \<open>candidates\<close>, \<open>content\<close>,
  \<open>parts\<close> or \<open>text\<close> gives the empty string, and a present text gives that text stripped.
\<close>

theorem extraction_defaults:
  "(map_of d (str ''candidates'') = None \<longrightarrow> extract_text (JDict d) = Inr [])
   \<and> (map_of d (str ''candidates'') = Some (JList (JDict c # cs)) \<longrightarrow>
        (map_of c (str ''content'') = None \<longrightarrow> extract_text (JDict d) = Inr [])
      \<and> (map_of c (str ''content'') = Some (JDict ct) \<longrightarrow>
           (map_of ct (str ''parts'') = None \<longrightarrow> extract_text (JDict d) = Inr [])
         \<and> (map_of ct (str ''parts'') = Some (JList (JDict p # ps)) \<longrightarrow>
              (map_of p (str ''text'') = None \<longrightarrow> extract_text (JDict d) = Inr [])
            \<and> (\<forall>s. map_of p (str ''text'') = Some (JStr s) \<longrightarrow> extract_text (JDict d) = Inr (strip s)))))"
  by (simp add: extract_text_def first_text_part_def and_then_def strip_def)

theorem extraction_defaults_witness:
  "extract_text (JDict [(str ''promptFeedback'', JDict [])]) = Inr []
   \<and> extract_text (JDict [(str ''candidates'', JList [JDict [(str ''finishReason'', JStr (str ''SAFETY''))]])]) = Inr []
   \<and> extract_text (JDict [(str ''candidates'', JList [JDict [(str ''content'', JDict [(str ''role'', JStr (str ''model''))])]])]) = Inr []
   \<and> extract_text (JDict [(str ''candidates'', JList [JDict [(str ''content'',
         JDict [(str ''parts'', JList [JDict [(str ''inlineData'', JNull)]])])]])]) = Inr []
   \<and> extract_text (JDict [(str ''candidates'', JList [JDict [(str ''content'',
         JDict [(str ''parts'', JList [JDict [(str ''text'', JStr (str '' yo''))]])])]])]) = Inr (strip (str '' yo''))"
proof -
  have 1: "extract_text (JDict [(str ''promptFeedback'', JDict [])]) = Inr []"
    using extraction_defaults [of "[(str ''promptFeedback'', JDict [])]"] by (simp add: str_def)
  have 2: "extract_text (JDict [(str ''candidates'', JList [JDict [(str ''finishReason'', JStr (str ''SAFETY''))]])]) = Inr []"
    using extraction_defaults
      [of "[(str ''candidates'', JList [JDict [(str ''finishReason'', JStr (str ''SAFETY''))]])]"
          "[(str ''finishReason'', JStr (str ''SAFETY''))]" "[]"]
    by (simp add: str_def)
  have 3: "extract_text (JDict [(str ''candidates'', JList [JDict [(str ''content'', JDict [(str ''role'', JStr (str ''model''))])]])]) = Inr []"
    using extraction_defaults
      [of "[(str ''candidates'', JList [JDict [(str ''content'', JDict [(str ''role'', JStr (str ''model''))])]])]"
          "[(str ''content'', JDict [(str ''role'', JStr (str ''model''))])]" "[]"
          "[(str ''role'', JStr (str ''model''))]"]
    by (simp add: str_def)
  have 4: "extract_text (JDict [(str ''candidates'', JList [JDict [(str ''content'',
         JDict [(str ''parts'', JList [JDict [(str ''inlineData'', JNull)]])])]])]) = Inr []"
    using extraction_defaults
      [of "[(str ''candidates'', JList [JDict [(str ''content'',
             JDict [(str ''parts'', JList [JDict [(str ''inlineData'', JNull)]])])]])]"
          "[(str ''content'', JDict [(str ''parts'', JList [JDict [(str ''inlineData'', JNull)]])])]" "[]"
          "[(str ''parts'', JList [JDict [(str ''inlineData'', JNull)]])]"
          "[(str ''inlineData'', JNull)]" "[]"]
    by (simp add: str_def)
  have 5: "extract_text (JDict [(str ''candidates'', JList [JDict [(str ''content'',
         JDict [(str ''parts'', JList [JDict [(str ''text'', JStr (str '' yo''))]])])]])]) = Inr (strip (str '' yo''))"
    using extraction_defaults
      [of "[(str ''candidates'', JList [JDict [(str ''content'',
             JDict [(str ''parts'', JList [JDict [(str ''text'', JStr (str '' yo''))]])])]])]"
          "[(str ''content'', JDict [(str ''parts'', JList [JDict [(str ''text'', JStr (str '' yo''))]])])]" "[]"
          "[(str ''parts'', JList [JDict [(str ''text'', JStr (str '' yo''))]])]"
          "[(str ''text'', JStr (str '' yo''))]" "[]"]
    by (simp add: str_def)
  from 1 2 3 4 5 show ?thesis by blast
qed

text \<open>
  As C7 is worded (total on every payload) it fails on \<^verbatim>\<open>{"candidates": []}\<close>: the
  default list is used only when the key is absent, and \<open>[][0]\<close> raises \<open>IndexError\<close>.
\<close>

theorem empty_candidates_counterexample:
  "extract_text (JDict [(str ''candidates'', JList [])]) = Inl (PyExc IndexError (str ''list index out of range''))"
  by (simp add: extract_text_def first_text_part_def and_then_def)

subsection \<open>C8: no state across invocations\<close>

text \<open>
  C8, as the code supports it. The result of an invocation and the calls it adds are
  those of an invocation started on an empty history in the same outside world: nothing
  an earlier invocation did is read. For a text update as above, every invocation posts
  to the completion provider and then sends to the chat; when the send of the first
  invocation returns, that invocation returns \<open>{"ok": true}\<close> after exactly these two
  calls, and handling the same update again right after it posts to the completion
  provider again and sends again, and returns \<open>{"ok": true}\<close> after exactly these two
  more calls when its send returns: nothing is deduplicated by message identifier.
\<close>

theorem handler_stateless:
  fixes cfg :: config and env :: env and hist :: "call list" and chat_id mid :: json and t :: pystr
  defines "G \<equiv> HttpPost (str ''https://generativelanguage.googleapis.com/v1beta/models/gemini-2.5-flash:generateContent'')
       [(str ''x-goog-api-key'', GEMINI_KEY cfg), (str ''content-type'', str ''application/json'')]
       (JDict [(str ''contents'', JList [JDict [(str ''parts'', JList [JDict [(str ''text'',
                  JStr (PROMPT_TEMPLATE_format SYSTEM_INSTRUCTIONS (strip t)))]])]]),
               (str ''generationConfig'', JDict [(str ''temperature'', JFloat 0.2)])])
       60"
    and "S \<equiv> \<lambda>s. HttpPost (str ''https://api.telegram.org/bot'' @ TELEGRAM_TOKEN cfg @ str ''/sendMessage'') []
       (JDict ([(str ''chat_id'', chat_id), (str ''text'', JStr s), (str ''parse_mode'', JStr (str ''Markdown''))]
               @ (if truthy mid then [(str ''reply_to_message_id'', mid)] else [])))
       20"
  shows "webhook cfg env secret req hist =
     (fst (webhook cfg (\<lambda>h. env (hist @ h)) secret req []),
      hist @ snd (webhook cfg (\<lambda>h. env (hist @ h)) secret req []))
   \<and> (secret = WEBHOOK_SECRET cfg \<longrightarrow> select_message update = Inr (JDict m) \<longrightarrow>
       map_of m (str ''text'') = Some (JStr t) \<longrightarrow> map_of m (str ''chat'') = Some (JDict c) \<longrightarrow>
       map_of c (str ''id'') = Some chat_id \<longrightarrow> map_of m (str ''message_id'') = Some mid \<longrightarrow>
       (\<exists>s1 rest1. snd (webhook cfg env secret (Inr update) hist) = hist @ [G, S s1] @ rest1
          \<and> ((\<exists>r. env (hist @ [G]) (S s1) = Inr r) \<longrightarrow>
               webhook cfg env secret (Inr update) hist =
                 (Inr (JDict [(str ''ok'', JBool True)]), hist @ [G, S s1])
             \<and> (\<exists>s2 rest2.
                  snd (webhook cfg env secret (Inr update) (snd (webhook cfg env secret (Inr update) hist))) =
                    hist @ [G, S s1, G, S s2] @ rest2
                  \<and> ((\<exists>r. env (hist @ [G, S s1, G]) (S s2) = Inr r) \<longrightarrow>
                       webhook cfg env secret (Inr update) (snd (webhook cfg env secret (Inr update) hist)) =
                         (Inr (JDict [(str ''ok'', JBool True)]), hist @ [G, S s1, G, S s2]))))))"
proof (intro conjI impI)
  show "webhook cfg env secret req hist =
     (fst (webhook cfg (\<lambda>h. env (hist @ h)) secret req []),
      hist @ snd (webhook cfg (\<lambda>h. env (hist @ h)) secret req []))"
    by (rule webhook_frame)
next
  let ?p = "PROMPT_TEMPLATE_format SYSTEM_INSTRUCTIONS (strip t)"
  let ?ok = "Inr (JDict [(str ''ok'', JBool True)]) :: pyexc + json"
  assume wf: "secret = WEBHOOK_SECRET cfg" "select_message update = Inr (JDict m)"
    "map_of m (str ''text'') = Some (JStr t)" "map_of m (str ''chat'') = Some (JDict c)"
    "map_of c (str ''id'') = Some chat_id" "map_of m (str ''message_id'') = Some mid"
  have W: "webhook cfg env secret (Inr update) h = relay cfg env chat_id mid (strip t) h" for h
    using wf by (rule webhook_text_update)
  have G: "gemini_call cfg ?p = G"
    by (simp only: G_def gemini_call_explicit)
  have S: "sendMessage_call cfg (send_payload chat_id s mid) = S s" for s
    by (simp only: S_def sendMessage_explicit)
  have first: "\<exists>s rest. snd (relay cfg env chat_id mid (strip t) h) = h @ [G, S s] @ rest
      \<and> ((\<exists>r. env (h @ [G]) (S s) = Inr r) \<longrightarrow> relay cfg env chat_id mid (strip t) h = (?ok, h @ [G, S s]))" for h
    using relay_first_send [of cfg env chat_id mid "strip t" h]
    unfolding G S by (metis append_Nil2 prod.collapse)
  from first [of hist] obtain s1 rest1 where 1:
    "snd (relay cfg env chat_id mid (strip t) hist) = hist @ [G, S s1] @ rest1"
    "(\<exists>r. env (hist @ [G]) (S s1) = Inr r) \<longrightarrow> relay cfg env chat_id mid (strip t) hist = (?ok, hist @ [G, S s1])"
    by blast
  from first [of "hist @ [G, S s1]"] obtain s2 rest2 where 2:
    "snd (relay cfg env chat_id mid (strip t) (hist @ [G, S s1])) = hist @ [G, S s1, G, S s2] @ rest2"
    "(\<exists>r. env (hist @ [G, S s1, G]) (S s2) = Inr r) \<longrightarrow>
       relay cfg env chat_id mid (strip t) (hist @ [G, S s1]) = (?ok, hist @ [G, S s1, G, S s2])"
    by auto
  show "\<exists>s1 rest1. snd (webhook cfg env secret (Inr update) hist) = hist @ [G, S s1] @ rest1
          \<and> ((\<exists>r. env (hist @ [G]) (S s1) = Inr r) \<longrightarrow>
               webhook cfg env secret (Inr update) hist = (?ok, hist @ [G, S s1])
             \<and> (\<exists>s2 rest2.
                  snd (webhook cfg env secret (Inr update) (snd (webhook cfg env secret (Inr update) hist))) =
                    hist @ [G, S s1, G, S s2] @ rest2
                  \<and> ((\<exists>r. env (hist @ [G, S s1, G]) (S s2) = Inr r) \<longrightarrow>
                       webhook cfg env secret (Inr update) (snd (webhook cfg env secret (Inr update) hist)) =
                         (?ok, hist @ [G, S s1, G, S s2]))))"
    unfolding W
  proof (intro exI conjI impI)
    show "snd (relay cfg env chat_id mid (strip t) hist) = hist @ [G, S s1] @ rest1" by (rule 1(1))
  next
    assume "\<exists>r. env (hist @ [G]) (S s1) = Inr r"
    with 1(2) show "relay cfg env chat_id mid (strip t) hist = (?ok, hist @ [G, S s1])" by blast
  next
    assume "\<exists>r. env (hist @ [G]) (S s1) = Inr r"
    with 1(2) have r1: "relay cfg env chat_id mid (strip t) hist = (?ok, hist @ [G, S s1])" by blast
    show "snd (relay cfg env chat_id mid (strip t) (snd (relay cfg env chat_id mid (strip t) hist))) =
            hist @ [G, S s1, G, S s2] @ rest2"
      using 2(1) by (simp add: r1)
  next
    assume "\<exists>r. env (hist @ [G]) (S s1) = Inr r" and s2: "\<exists>r. env (hist @ [G, S s1, G]) (S s2) = Inr r"
    with 1(2) have r1: "relay cfg env chat_id mid (strip t) hist = (?ok, hist @ [G, S s1])" by blast
    show "relay cfg env chat_id mid (strip t) (snd (relay cfg env chat_id mid (strip t) hist)) =
            (?ok, hist @ [G, S s1, G, S s2])"
      using 2(2) s2 by (simp add: r1)
  qed
qed

theorem handler_stateless_witness:
  "\<exists>s1 s2. webhook example_cfg (env_answers (str ''yo'')) (str ''s3cret'') (Inr update_hi)
        (snd (webhook example_cfg (env_answers (str ''yo'')) (str ''s3cret'') (Inr update_hi) [])) =
     (Inr (JDict [(str ''ok'', JBool True)]),
      [gemini_call example_cfg (PROMPT_TEMPLATE_format SYSTEM_INSTRUCTIONS (str ''hi'')),
       HttpPost (str ''https://api.telegram.org/bot'' @ str ''t'' @ str ''/sendMessage'') []
         (JDict [(str ''chat_id'', JInt 7), (str ''text'', JStr s1), (str ''parse_mode'', JStr (str ''Markdown'')),
                 (str ''reply_to_message_id'', JInt 42)]) 20,
       gemini_call example_cfg (PROMPT_TEMPLATE_format SYSTEM_INSTRUCTIONS (str ''hi'')),
       HttpPost (str ''https://api.telegram.org/bot'' @ str ''t'' @ str ''/sendMessage'') []
         (JDict [(str ''chat_id'', JInt 7), (str ''text'', JStr s2), (str ''parse_mode'', JStr (str ''Markdown'')),
                 (str ''reply_to_message_id'', JInt 42)]) 20])"
proof -
  from handler_stateless
    [where env = "env_answers (str ''yo'')" and hist = "[]", THEN conjunct2, rule_format, OF update_hi_facts]
  show ?thesis
    by (auto simp: env_answers_def gemini_call_explicit strip_hi example_cfg_def)
qed

text \<open>
  As C8 is worded (two completion calls and two sent messages on a replay) it fails when
  the sends time out: the first invocation posts to the provider, tries the reply and
  then the error report, and is left by the exception; the second posts to the provider
  again, tries one error report, and is left by the exception. That is two completion
  calls, three sends and no acknowledgment.
\<close>

theorem replay_send_fails_counterexample:
  "webhook example_cfg (env_send_fails (str ''yo'')) (str ''s3cret'') (Inr update_hi)
      (snd (webhook example_cfg (env_send_fails (str ''yo'')) (str ''s3cret'') (Inr update_hi) [])) =
     (Inl (PyExc OtherException (str ''timed out'')),
      [gemini_call example_cfg (PROMPT_TEMPLATE_format SYSTEM_INSTRUCTIONS (str ''hi'')),
       HttpPost (str ''https://api.telegram.org/bot'' @ str ''t'' @ str ''/sendMessage'') []
         (JDict [(str ''chat_id'', JInt 7), (str ''text'', JStr (str ''yo'')),
                 (str ''parse_mode'', JStr (str ''Markdown'')), (str ''reply_to_message_id'', JInt 42)]) 20,
       HttpPost (str ''https://api.telegram.org/bot'' @ str ''t'' @ str ''/sendMessage'') []
         (JDict [(str ''chat_id'', JInt 7), (str ''text'', JStr (str ''Error: timed out'')),
                 (str ''parse_mode'', JStr (str ''Markdown'')), (str ''reply_to_message_id'', JInt 42)]) 20,
       gemini_call example_cfg (PROMPT_TEMPLATE_format SYSTEM_INSTRUCTIONS (str ''hi'')),
       HttpPost (str ''https://api.telegram.org/bot'' @ str ''t'' @ str ''/sendMessage'') []
         (JDict [(str ''chat_id'', JInt 7), (str ''text'', JStr (str ''Error: timed out'')),
                 (str ''parse_mode'', JStr (str ''Markdown'')), (str ''reply_to_message_id'', JInt 42)]) 20])"
  by (simp add: handler_defs str_def example_cfg_def update_hi_def
      env_send_fails_def answer_payload_def strip_def isspace_def
      sendMessage_call_def send_payload_def TELEGRAM_API_def)

subsection \<open>C9: identifiers are read before the try statement\<close>

text \<open>
  C9. For a request with the configured secret whose selected message is an object
  with a \<open>text\<close> field, if the message has no \<open>chat\<close> object with an \<open>id\<close> in it, or has
  no \<open>message_id\<close>, the handler is left by an exception (a \<open>KeyError\<close>, or a \<open>TypeError\<close>
  when \<open>chat\<close> is not an object): no acknowledgment is returned and no outbound call
  is made.
\<close>

theorem missing_ids_raise_before_try:
  assumes "secret = WEBHOOK_SECRET cfg"
    and "select_message update = Inr (JDict m)"
    and "map_of m (str ''text'') = Some tx"
    and "(\<nexists>c i. map_of m (str ''chat'') = Some (JDict c) \<and> map_of c (str ''id'') = Some i)
         \<or> map_of m (str ''message_id'') = None"
  shows "\<exists>k s. webhook cfg env secret (Inr update) hist = (Inl (PyExc k s), hist)
               \<and> (k = KeyError \<or> k = TypeError)"
proof -
  from assms(3) have ne: "m \<noteq> []" by auto
  have nt: "no_text (JDict m) = Inr False"
    using assms(3) ne by (simp add: no_text_def and_then_def)
  show ?thesis
  proof (cases "map_of m (str ''chat'')")
    case None
    then show ?thesis
      using assms(1,2) nt by (simp add: webhook_def and_then_def)
  next
    case (Some v)
    show ?thesis
    proof (cases "\<exists>c i. v = JDict c \<and> map_of c (str ''id'') = Some i")
      case True
      with Some assms(4) have "map_of m (str ''message_id'') = None" by auto
      with True Some show ?thesis
        using assms(1,2) nt by (auto simp: webhook_def and_then_def)
    next
      case False
      then show ?thesis
        using Some assms(1,2) nt
        by (cases v) (auto simp: webhook_def and_then_def split: option.splits)
    qed
  qed
qed

theorem missing_ids_raise_before_try_witness:
  "\<exists>k s. webhook example_cfg (env_answers (str ''yo'')) (str ''s3cret'') (Inr update_no_chat) [] =
            (Inl (PyExc k s), [])
          \<and> (k = KeyError \<or> k = TypeError)"
  by (rule missing_ids_raise_before_try [where m = "[(str ''text'', JStr (str ''hi''))]"])
     (simp_all add: example_cfg_def update_no_chat_def select_message_def and_then_def str_def)

subsection \<open>C10: message before edited_message\<close>

text \<open>
  C10. When the update has a truthy \<open>message\<close>, that value is the one selected, and the
  handler does what it does on the update holding that \<open>message\<close> alone, whatever
  \<open>edited_message\<close> is. When \<open>message\<close> is absent or falsy, the \<open>edited_message\<close> value
  is selected (\<open>None\<close> when absent), and the handler does what it does on the update
  holding that \<open>edited_message\<close> alone.
\<close>

theorem message_preferred_over_edited:
  "(map_of u (str ''message'') = Some m \<and> truthy m \<longrightarrow>
      select_message (JDict u) = Inr m
      \<and> webhook cfg env secret (Inr (JDict u)) hist =
        webhook cfg env secret (Inr (JDict [(str ''message'', m)])) hist)
   \<and> (map_of u (str ''message'') = None \<or> (\<exists>m. map_of u (str ''message'') = Some m \<and> \<not> truthy m) \<longrightarrow>
      select_message (JDict u) =
        Inr (case map_of u (str ''edited_message'') of None \<Rightarrow> JNull | Some e \<Rightarrow> e)
      \<and> webhook cfg env secret (Inr (JDict u)) hist =
        webhook cfg env secret
          (Inr (JDict (case map_of u (str ''edited_message'') of
                         None \<Rightarrow> [] | Some e \<Rightarrow> [(str ''edited_message'', e)]))) hist)"
proof -
  have ne: "str ''edited_message'' \<noteq> str ''message''"
    by (simp add: str_def)
  show ?thesis
    by (auto intro!: webhook_select_cong simp: select_message_dict ne split: option.splits)
qed

theorem message_preferred_over_edited_witness:
  "select_message (JDict [(str ''message'', JDict [(str ''photo'', JList [])]),
                          (str ''edited_message'', JDict [(str ''text'', JStr (str ''hi''))])]) =
     Inr (JDict [(str ''photo'', JList [])])
   \<and> select_message (JDict [(str ''message'', JNull),
                            (str ''edited_message'', JDict [(str ''text'', JStr (str ''hi''))])]) =
     Inr (JDict [(str ''text'', JStr (str ''hi''))])"
proof -
  have 1: "select_message (JDict [(str ''message'', JDict [(str ''photo'', JList [])]),
                          (str ''edited_message'', JDict [(str ''text'', JStr (str ''hi''))])]) =
     Inr (JDict [(str ''photo'', JList [])])"
    using message_preferred_over_edited
      [of "[(str ''message'', JDict [(str ''photo'', JList [])]),
            (str ''edited_message'', JDict [(str ''text'', JStr (str ''hi''))])]"
          "JDict [(str ''photo'', JList [])]", THEN conjunct1]
    by simp
  have 2: "select_message (JDict [(str ''message'', JNull),
                            (str ''edited_message'', JDict [(str ''text'', JStr (str ''hi''))])]) =
     Inr (JDict [(str ''text'', JStr (str ''hi''))])"
    using message_preferred_over_edited
      [of "[(str ''message'', JNull), (str ''edited_message'', JDict [(str ''text'', JStr (str ''hi''))])]",
       THEN conjunct2]
    by (simp add: str_def)
  from 1 2 show ?thesis by blast
qed

end
